theory Spec2Isabelle
  imports Complex_Main "HOL-Library.Product_Lexorder" "HOL-Library.Multiset"
begin

section \<open>Python exceptions as values\<close>

text \<open>
  Every \<^verbatim>\<open>raise\<close> of the source and every exception of the Python runtime or of a
  library call that the modelled code can meet is a value of \<open>py_error\<close>; a function
  that can raise returns \<open>py_error + 'a\<close>, with \<open>Inl\<close> for the exception.
  \<open>PlainException\<close> is the bare \<^verbatim>\<open>raise Exception\<close> of \<^verbatim>\<open>run_xtb_ir\<close>;
  \<open>EngineError\<close> stands for whatever the external quantum-chemistry engine raises.
\<close>

datatype py_error =
    TooLargeError
  | AttributeError
  | IndexError
  | KeyError
  | ValueError
  | TypeError
  | AssertionError
  | FileNotFoundError
  | UnboundLocalError
  | PlainException
  | EngineError

definition ebind :: "py_error + 'a \<Rightarrow> ('a \<Rightarrow> py_error + 'b) \<Rightarrow> py_error + 'b" where
  "ebind m f = (case m of Inl e \<Rightarrow> Inl e | Inr x \<Rightarrow> f x)"

definition py_index :: "'a list \<Rightarrow> nat \<Rightarrow> py_error + 'a" where
  \<comment> \<open>\<^verbatim>\<open>xs[i]\<close> for a non-negative index: out of range raises IndexError.\<close>
  "py_index xs i = (if i < length xs then Inr (xs ! i) else Inl IndexError)"

fun emap :: "('a \<Rightarrow> py_error + 'b) \<Rightarrow> 'a list \<Rightarrow> py_error + 'b list" where
  "emap f [] = Inr []"
| "emap f (x # xs) =
     (case f x of Inl e \<Rightarrow> Inl e
      | Inr y \<Rightarrow> (case emap f xs of Inl e \<Rightarrow> Inl e | Inr ys \<Rightarrow> Inr (y # ys)))"

section \<open>The numpy operations the attribution code uses\<close>

text \<open>
  Floating-point numbers are idealised as exact reals. The places where numpy produces
  \<^verbatim>\<open>nan\<close> or \<^verbatim>\<open>inf\<close> instead of a number (a division by a zero sum or a zero
  maximum) are separate branches of the functions below, since every comparison with
  \<^verbatim>\<open>nan\<close> is false there and HOL's \<open>x / 0 = 0\<close> would hide it.
\<close>

type_synonym vec3 = "real \<times> real \<times> real"

fun np_diff :: "real list \<Rightarrow> real list" where
  "np_diff (x # y # zs) = (y - x) # np_diff (y # zs)"
| "np_diff _ = []"

fun np_max :: "real list \<Rightarrow> py_error + real" where
  \<comment> \<open>\<^verbatim>\<open>np.max\<close> of an empty array raises ValueError.\<close>
  "np_max [] = Inl ValueError"
| "np_max (x # xs) = Inr (fold max xs x)"

definition np_where_gt :: "real list \<Rightarrow> real \<Rightarrow> nat list" where
  \<comment> \<open>\<^verbatim>\<open>np.where(xs > t)[0]\<close>: the indices, ascending, whose entry exceeds \<open>t\<close>.\<close>
  "np_where_gt xs t = filter (\<lambda>i. xs ! i > t) [0..<length xs]"

definition norm3 :: "vec3 \<Rightarrow> real" where
  "norm3 v = (case v of (x, y, z) \<Rightarrow> sqrt (x * x + y * y + z * z))"

definition default_threshold :: real where
  "default_threshold = 4 / 10"

section \<open>Selecting the most contributing bonds and atoms\<close>

text \<open>
  \<^verbatim>\<open>select_most_contributing_bonds(displacements, threshold=0.4)\<close>. With at most one
  entry the source returns \<^verbatim>\<open>np.array([0])\<close> without looking at the data. When the
  entries sum to zero, numpy's quotient is \<^verbatim>\<open>nan\<close> or \<^verbatim>\<open>inf\<close> everywhere, the
  threshold is \<^verbatim>\<open>nan\<close> or \<^verbatim>\<open>inf\<close>, and no index passes the comparison.
\<close>

definition select_most_contributing_bonds :: "real list \<Rightarrow> real \<Rightarrow> py_error + nat list" where
  "select_most_contributing_bonds displacements threshold =
     (if length displacements > 1 then
        (let relative_contribution = map (\<lambda>d. d / sum_list displacements) displacements in
         case np_max (map abs (np_diff relative_contribution)) of
           Inl e \<Rightarrow> Inl e
         | Inr gap \<Rightarrow>
             if sum_list displacements = 0 then Inr []
             else Inr (np_where_gt relative_contribution (threshold * gap)))
      else Inr [0])"

text \<open>
  \<^verbatim>\<open>select_most_contributing_atoms(ir, mode, threshold=0.4)\<close>, on the displacement
  field \<^verbatim>\<open>ir.get_mode(mode)\<close> (one 3-vector per atom). There is no length guard:
  \<^verbatim>\<open>.max()\<close> of no atoms and \<^verbatim>\<open>np.max\<close> of the empty difference of a single atom
  raise ValueError. A zero maximum gives \<^verbatim>\<open>nan\<close> everywhere and an empty selection.
\<close>

definition select_most_contributing_atoms :: "vec3 list \<Rightarrow> real \<Rightarrow> py_error + nat list" where
  "select_most_contributing_atoms displacements threshold =
     (let norms = map norm3 displacements in
      case np_max norms of
        Inl e \<Rightarrow> Inl e
      | Inr mx \<Rightarrow>
          (let relative_contribution = map (\<lambda>d. d / mx) norms in
           case np_max (map abs (np_diff relative_contribution)) of
             Inl e \<Rightarrow> Inl e
           | Inr gap \<Rightarrow>
               if mx = 0 then Inr []
               else Inr (np_where_gt relative_contribution (threshold * gap))))"

section \<open>Linearity from the principal moments of inertia\<close>

text \<open>
  \<^verbatim>\<open>linear = sum(moi > 0.01) == 2\<close> in \<^verbatim>\<open>run_xtb_ir\<close>: the number of moments above
  the threshold is compared with 2 by equality.
\<close>

definition moi_threshold :: real where
  "moi_threshold = 1 / 100"

definition linear_of_moi :: "real list \<Rightarrow> bool" where
  "linear_of_moi moi = (length (filter (\<lambda>m. m > moi_threshold) moi) = 2)"

section \<open>The data the analysis works on\<close>

text \<open>
  The objects of the libraries (RDKit molecule, ASE atoms, the ASE infrared calculator
  after its run) are records of the parts the service reads. A complex frequency is the
  pair of its real and imaginary part; numpy orders complex numbers by the real part,
  then the imaginary part, which is the lexicographic order on pairs.
\<close>

record mol =
  mol_atoms :: "string list"
  mol_bonds :: "(nat \<times> nat) list"
  mol_conformer :: "vec3 list option"

record atoms =
  symbols :: "string list"
  positions :: "vec3 list"

record infrared =
  ir_indices :: "nat list"
  ir_frequencies :: "(real \<times> real) list"
  ir_modes :: "vec3 list list"
  ir_intensities :: "real list"
  ir_spectrum :: "real list \<times> real list"
  ir_zero_point_energy :: real

datatype mode_type = Translation | Rotation | Vibration

record mode_info =
  number :: nat
  intensity :: real
  ramanIntensity :: "real option"
  wavenumber :: real
  imaginary :: bool
  mostContributingAtoms :: "nat list"
  mostContributingBonds :: "(nat \<times> nat) list option"
  modeType :: mode_type
  displacementAlignment :: real

record IRResult =
  wavenumbers :: "real list"
  intensities :: "real list"
  ramanIntensities :: "real list option"
  zeroPointEnergy :: real
  modes :: "mode_info list"
  hasImaginaryFrequency :: bool
  isLinear :: bool
  momentsOfInertia :: "real list"
  hasLargeImaginaryFrequency :: bool

text \<open>
  Not part of the records: the formatted XYZ text of a mode, the ranking of the most
  displaced atoms, the centre-of-mass displacement, the change of the moments of
  inertia, and the per-atom and per-bond rankings of the most relevant modes. They are
  numbers and rankings computed from the same arrays and no branch depends on them.
\<close>

section \<open>Settings and library calls\<close>

text \<open>
  The settings, the conformer embedding, the optimizer and the libraries (RDKit, ASE,
  the engine, hashlib, scipy) are not part of the analysed code. The constants of the
  settings are the fields of \<open>settings\<close>; the calls the service makes into the rest
  are the fields of \<open>externals\<close>. The Raman step is everything inside the \<^verbatim>\<open>try\<close>
  block of \<^verbatim>\<open>run_xtb_ir\<close>; it either yields the Raman intensities and the folded
  Raman spectrum, and then its files are in the working directory, or it raises, and
  then the flag says whether the calculator had already created that directory. The
  infrared step is the construction and the run of the infrared calculator and the
  reading of its spectrum and zero-point energy; its flag has the same meaning.
\<close>

record settings =
  MAX_ATOMS_FF :: nat
  MAX_ATOMS_XTB :: nat
  IMAGINARY_FREQ_THRESHOLD :: real

datatype raman_outcome = RamanRaised py_error bool | RamanDone "real list" "real list"

datatype infrared_outcome = InfraredRaised py_error bool | InfraredDone infrared

record externals =
  hash_object :: "string \<Rightarrow> string"
  str_symbols :: "string list \<Rightarrow> string"
  str_positions :: "vec3 list \<Rightarrow> string"
  MolFromSmiles :: "string \<Rightarrow> mol option"
  MolFromMolBlock :: "string \<Rightarrow> mol option"
  AddHs :: "mol \<Rightarrow> mol"
  embed_conformer :: "mol \<Rightarrow> py_error + mol"
  run_xtb_opt :: "atoms \<Rightarrow> string \<Rightarrow> py_error + atoms"
  get_moments_of_inertia :: "atoms \<Rightarrow> real list"
  raman_step :: "atoms \<Rightarrow> string \<Rightarrow> raman_outcome"
  infrared_step :: "atoms \<Rightarrow> string \<Rightarrow> infrared_outcome"
  cosine :: "vec3 \<Rightarrow> vec3 \<Rightarrow> real"

section \<open>Caches, scratch directories and the record of expensive work\<close>

text \<open>
  The four caches are key-value stores whose \<^verbatim>\<open>get\<close> returns \<^verbatim>\<open>None\<close> for a missing
  key; they are maps. \<open>scratch_dirs\<close> is the set of working directories that exist on
  the file system. \<open>work_log\<close> is a ghost variable: each call of the embedding, of the
  optimizer and of the two engine steps appends an entry, so that "no work was done" is
  a statement about this list.
\<close>

datatype work = Embedded | Optimized | RamanRun | InfraredRun

record state =
  conformer_cache :: "string \<rightharpoonup> (atoms \<times> mol)"
  ir_cache :: "string \<rightharpoonup> IRResult"
  ir_from_smiles_cache :: "string \<rightharpoonup> IRResult"
  ir_from_molfile_cache :: "string \<rightharpoonup> IRResult"
  scratch_dirs :: "string set"
  work_log :: "work list"

definition did :: "work \<Rightarrow> state \<Rightarrow> state" where
  "did w st = st\<lparr>work_log := work_log st @ [w]\<rparr>"

definition rmtree :: "string \<Rightarrow> state \<Rightarrow> py_error + state" where
  \<comment> \<open>\<^verbatim>\<open>shutil.rmtree(d)\<close>: a directory that does not exist raises FileNotFoundError.\<close>
  "rmtree d st =
     (if d \<in> scratch_dirs st then Inr (st\<lparr>scratch_dirs := scratch_dirs st - {d}\<rparr>)
      else Inl FileNotFoundError)"

definition mkdir :: "string \<Rightarrow> state \<Rightarrow> state" where
  "mkdir d st = st\<lparr>scratch_dirs := insert d (scratch_dirs st)\<rparr>"

section \<open>Structure builder\<close>

text \<open>
  Both builders start with \<^verbatim>\<open>try: result = conformer_cache.get(key)\<close> and
  \<^verbatim>\<open>except KeyError: pass\<close>. The \<^verbatim>\<open>get\<close> of the cache returns \<^verbatim>\<open>None\<close> for a key that
  is not there and does not raise, so the lookup is the lookup of a map, and a hit
  returns at once: nothing below \<^verbatim>\<open>if result is None\<close> runs, the atom-count check
  included.
\<close>

definition GetNumAtoms :: "mol \<Rightarrow> nat" where
  "GetNumAtoms m = length (mol_atoms m)"

text \<open>
  \<^verbatim>\<open>check_max_atoms(mol, max_atoms)\<close>. The parsers return \<^verbatim>\<open>None\<close> for text they cannot
  parse, and \<^verbatim>\<open>mol.GetNumAtoms()\<close> on \<^verbatim>\<open>None\<close> raises AttributeError. The limit is
  \<^verbatim>\<open>None\<close> when \<^verbatim>\<open>get_max_atoms\<close> does not know the method, and the comparison then
  raises TypeError.
\<close>

definition check_max_atoms :: "mol option \<Rightarrow> nat option \<Rightarrow> py_error + unit" where
  "check_max_atoms mol max_atoms =
     (case mol of
        None \<Rightarrow> Inl AttributeError
      | Some m \<Rightarrow>
          (case max_atoms of
             None \<Rightarrow> Inl TypeError
           | Some limit \<Rightarrow> if GetNumAtoms m > limit then Inl TooLargeError else Inr ()))"

definition rdkit2ase :: "mol \<Rightarrow> py_error + atoms" where
  \<comment> \<open>\<^verbatim>\<open>mol.GetConformer()\<close> raises ValueError when the molecule has no conformer.\<close>
  "rdkit2ase m =
     (case mol_conformer m of
        None \<Rightarrow> Inl ValueError
      | Some pos \<Rightarrow> Inr \<lparr>symbols = mol_atoms m, positions = pos\<rparr>)"

definition embed_and_store ::
  "externals \<Rightarrow> state \<Rightarrow> string \<Rightarrow> mol \<Rightarrow> (py_error + atoms \<times> mol) \<times> state" where
  \<comment> \<open>The common tail of both builders: embed, convert, store under the input string.\<close>
  "embed_and_store ext st key m =
     (let st1 = did Embedded st in
      case embed_conformer ext m of
        Inl e \<Rightarrow> (Inl e, st1)
      | Inr m' \<Rightarrow>
          (case rdkit2ase m' of
             Inl e \<Rightarrow> (Inl e, st1)
           | Inr a \<Rightarrow>
               (Inr (a, m'),
                st1\<lparr>conformer_cache := (conformer_cache st1)(key \<mapsto> (a, m'))\<rparr>)))"

definition molfile2ase ::
  "externals \<Rightarrow> state \<Rightarrow> string \<Rightarrow> nat option \<Rightarrow> (py_error + atoms \<times> mol) \<times> state" where
  "molfile2ase ext st molfile max_atoms =
     (case conformer_cache st molfile of
        Some result \<Rightarrow> (Inr result, st)
      | None \<Rightarrow>
          (case MolFromMolBlock ext molfile of
             None \<Rightarrow> (Inl AttributeError, st)
           | Some m \<Rightarrow>
               (case check_max_atoms (Some m) max_atoms of
                  Inl e \<Rightarrow> (Inl e, st)
                | Inr _ \<Rightarrow> embed_and_store ext st molfile m)))"

definition smiles2ase ::
  "externals \<Rightarrow> state \<Rightarrow> string \<Rightarrow> nat option \<Rightarrow> (py_error + atoms \<times> mol) \<times> state" where
  "smiles2ase ext st smiles max_atoms =
     (case conformer_cache st smiles of
        Some result \<Rightarrow> (Inr result, st)
      | None \<Rightarrow>
          (let mol = MolFromSmiles ext smiles in
           case check_max_atoms mol max_atoms of
             Inl e \<Rightarrow> (Inl e, st)
           | Inr _ \<Rightarrow>
               (case mol of
                  None \<Rightarrow> (Inl AttributeError, st)
                | Some m \<Rightarrow> embed_and_store ext st smiles (AddHs ext m))))"

section \<open>Bond displacements and alignment of a mode\<close>

definition vadd :: "vec3 \<Rightarrow> vec3 \<Rightarrow> vec3" where
  "vadd u v = (case u of (a, b, c) \<Rightarrow> case v of (x, y, z) \<Rightarrow> (a + x, b + y, c + z))"

definition vsub :: "vec3 \<Rightarrow> vec3 \<Rightarrow> vec3" where
  "vsub u v = (case u of (a, b, c) \<Rightarrow> case v of (x, y, z) \<Rightarrow> (a - x, b - y, c - z))"

definition vsum :: "vec3 list \<Rightarrow> vec3" where
  \<comment> \<open>\<^verbatim>\<open>mode.sum(axis=0)\<close>\<close>
  "vsum vs = foldl vadd (0, 0, 0) vs"

definition get_mode :: "infrared \<Rightarrow> nat \<Rightarrow> py_error + vec3 list" where
  "get_mode ir n = py_index (ir_modes ir) n"

definition get_bonds_from_mol :: "mol \<Rightarrow> (nat \<times> nat) list" where
  "get_bonds_from_mol m = mol_bonds m"

definition get_bond_vector :: "vec3 list \<Rightarrow> nat \<times> nat \<Rightarrow> py_error + vec3" where
  "get_bond_vector pos bond =
     ebind (py_index pos (snd bond)) (\<lambda>p1.
     ebind (py_index pos (fst bond)) (\<lambda>p0. Inr (vsub p1 p0)))"

definition get_displaced_positions :: "vec3 list \<Rightarrow> vec3 list \<Rightarrow> py_error + vec3 list" where
  \<comment> \<open>\<^verbatim>\<open>positions + mode\<close> on arrays of one shape; other shapes raise ValueError.\<close>
  "get_displaced_positions pos mode =
     (if length pos = length mode then Inr (map2 vadd pos mode) else Inl ValueError)"

definition get_bond_displacements :: "mol \<Rightarrow> atoms \<Rightarrow> vec3 list \<Rightarrow> py_error + real list" where
  "get_bond_displacements m a mode =
     (let bonds = get_bonds_from_mol m; pos = positions a in
      ebind (get_displaced_positions pos mode) (\<lambda>moved.
        let displaced_positions = map (\<lambda>p. vsub p (vsum mode)) moved in
        emap (\<lambda>bond.
          ebind (get_bond_vector pos bond) (\<lambda>v.
          ebind (get_bond_vector displaced_positions bond) (\<lambda>w.
            Inr \<bar>norm3 v - norm3 w\<bar>))) bonds))"

definition compile_all_bond_displacements ::
  "mol \<Rightarrow> atoms \<Rightarrow> infrared \<Rightarrow> py_error + real list list" where
  \<comment> \<open>\<^verbatim>\<open>np.vstack\<close> of no rows raises ValueError.\<close>
  "compile_all_bond_displacements m a ir =
     ebind (emap (\<lambda>mode_number.
              ebind (get_mode ir mode_number) (get_bond_displacements m a))
            [0..<3 * length (ir_indices ir)]) (\<lambda>rows.
       if rows = [] then Inl ValueError else Inr rows)"

fun pairs_lt :: "'a list \<Rightarrow> ('a \<times> 'a) list" where
  \<comment> \<open>the pairs \<open>(xs ! i, xs ! j)\<close> with \<open>i < j\<close>, in the order of the two nested loops\<close>
  "pairs_lt [] = []"
| "pairs_lt (x # xs) = map (Pair x) xs @ pairs_lt xs"

definition np_mean :: "real list \<Rightarrow> real" where
  \<comment> \<open>numpy gives \<^verbatim>\<open>nan\<close> for an empty list; the quotient below is 0 there.\<close>
  "np_mean xs = sum_list xs / real (length xs)"

definition get_alignment :: "externals \<Rightarrow> infrared \<Rightarrow> nat \<Rightarrow> py_error + real" where
  "get_alignment ext ir mode_number =
     ebind (get_mode ir mode_number) (\<lambda>displacements.
       Inr (np_mean (map (\<lambda>(u, v). cosine ext u v) (pairs_lt displacements))))"

section \<open>Mode classification\<close>

definition argsort :: "(real \<times> real) list \<Rightarrow> nat list" where
  \<comment> \<open>\<^verbatim>\<open>np.argsort\<close>: the indices in ascending order of their entries. numpy promises no
      order among equal entries; here they stay in index order, and no statement below
      depends on it.\<close>
  "argsort fs = map snd (sort_key fst (zip fs [0..<length fs]))"

definition clean_frequency :: "(real \<times> real) list \<Rightarrow> nat \<Rightarrow> py_error + real \<times> string" where
  "clean_frequency frequencies n =
     ebind (py_index frequencies n) (\<lambda>f.
       if snd f \<noteq> 0 then Inr (snd f, ''i'') else Inr (fst f, '' ''))"

definition classify_mode :: "bool \<Rightarrow> real list \<Rightarrow> real \<Rightarrow> nat \<Rightarrow> py_error + mode_type" where
  \<comment> \<open>the \<^verbatim>\<open>if n < 3 ... elif n < 5 ... elif n == 5 ... else\<close> chain of the loop body\<close>
  "classify_mode linear' alignments third_best_alignment n =
     (if n < 3 then Inr Translation
      else if n < 5 then Inr Rotation
      else if n = 5 then
        (if linear' then Inr Vibration
         else ebind (py_index alignments n) (\<lambda>a.
                if a \<ge> third_best_alignment then Inr Translation else Inr Rotation))
      else Inr Vibration)"

definition mode_body ::
  "settings \<Rightarrow> infrared \<Rightarrow> bool \<Rightarrow> real list \<Rightarrow> real \<Rightarrow> real list list option
     \<Rightarrow> (nat \<times> nat) list \<Rightarrow> real option list \<Rightarrow> nat
     \<Rightarrow> py_error + mode_info \<times> bool \<times> bool" where
  \<comment> \<open>One iteration of the loop of \<^verbatim>\<open>compile_modes_info\<close>, for the loop counter \<open>k\<close>:
      the mode record and whether it sets the two imaginary-frequency flags. Without
      bond displacements the variable \<^verbatim>\<open>mode\<close> is never bound and its first use
      raises UnboundLocalError.\<close>
  "mode_body cfg ir linear' alignments third_best_alignment bond_displacements bonds
       raman_intensities k =
     (let frequencies = ir_frequencies ir in
      ebind (if k < length frequencies then Inr (argsort frequencies ! k) else Inl KeyError) (\<lambda>n.
      ebind (classify_mode linear' alignments third_best_alignment n) (\<lambda>mt.
      ebind (clean_frequency frequencies n) (\<lambda>(f, c).
      ebind (case bond_displacements of
               None \<Rightarrow> Inr None
             | Some bd \<Rightarrow>
                 ebind (py_index bd n) (\<lambda>row.
                 ebind (select_most_contributing_bonds row default_threshold) (\<lambda>sel.
                 ebind (emap (py_index bonds) sel) (\<lambda>bs.
                 ebind (get_mode ir n) (\<lambda>mode. Inr (Some bs)))))) (\<lambda>mcb.
      ebind (py_index raman_intensities n) (\<lambda>raman.
      ebind (py_index (ir_intensities ir) n) (\<lambda>inten.
      ebind (if bond_displacements = None then Inl UnboundLocalError else Inr ()) (\<lambda>_.
      ebind (get_mode ir n) (\<lambda>displacements.
      ebind (select_most_contributing_atoms displacements default_threshold) (\<lambda>mca.
      ebind (py_index alignments n) (\<lambda>al.
        Inr (\<lparr>number = n, intensity = inten, ramanIntensity = raman, wavenumber = f,
               imaginary = (c = ''i''), mostContributingAtoms = mca,
               mostContributingBonds = mcb, modeType = mt,
               displacementAlignment = al\<rparr>,
             c = ''i'',
             c = ''i'' \<and> f > IMAGINARY_FREQ_THRESHOLD cfg))))))))))))"

fun modes_loop ::
  "(nat \<Rightarrow> py_error + mode_info \<times> bool \<times> bool) \<Rightarrow> nat list
     \<Rightarrow> mode_info list \<times> bool \<times> bool \<Rightarrow> py_error + mode_info list \<times> bool \<times> bool" where
  "modes_loop body [] acc = Inr acc"
| "modes_loop body (k # ks) acc =
     (case body k of
        Inl e \<Rightarrow> Inl e
      | Inr (m, im, large) \<Rightarrow>
          (case acc of (ms, has_imaginary, has_large_imaginary) \<Rightarrow>
             modes_loop body ks
               (ms @ [m], has_imaginary \<or> im, has_large_imaginary \<or> large)))"

definition compile_modes_info ::
  "settings \<Rightarrow> infrared \<Rightarrow> bool \<Rightarrow> real list \<Rightarrow> real list list option
     \<Rightarrow> (nat \<times> nat) list \<Rightarrow> real list option
     \<Rightarrow> py_error + mode_info list \<times> bool \<times> bool" where
  "compile_modes_info cfg ir linear' alignments bond_displacements bonds raman_intensities =
     (let sorted_alignments = rev (sort alignments) in
      ebind (py_index sorted_alignments 2) (\<lambda>third_best_alignment.
        let num_modes = 3 * length (ir_indices ir);
            raman = (case raman_intensities of
                       None \<Rightarrow> replicate num_modes None
                     | Some rs \<Rightarrow> map Some rs)
        in modes_loop
             (mode_body cfg ir linear' alignments third_best_alignment bond_displacements
                bonds raman)
             [0..<num_modes] ([], False, False)))"

text \<open>
  The Raman intensity per mode that the loop reads: \<^verbatim>\<open>[None] * num_modes\<close> when the
  Raman step gave nothing. Used to state what the loop body received.
\<close>

definition raman_column :: "nat \<Rightarrow> real list option \<Rightarrow> real option list" where
  "raman_column num_modes raman_intensities =
     (case raman_intensities of
        None \<Rightarrow> replicate num_modes None
      | Some rs \<Rightarrow> map Some rs)"

section \<open>The vibrational analysis\<close>

definition hash_atoms :: "externals \<Rightarrow> atoms \<Rightarrow> string" where
  "hash_atoms ext a = hash_object ext (str_symbols ext (symbols a) @ str_positions ext (positions a))"

definition ir_hash :: "externals \<Rightarrow> atoms \<Rightarrow> string \<Rightarrow> string" where
  "ir_hash ext a method = hash_object ext (hash_atoms ext a @ method)"

definition get_max_atoms :: "settings \<Rightarrow> string \<Rightarrow> nat option" where
  \<comment> \<open>A method that is none of the three falls off the end of the function: \<^verbatim>\<open>None\<close>.\<close>
  "get_max_atoms cfg method =
     (if method = ''GFNFF'' then Some (MAX_ATOMS_FF cfg)
      else if method = ''GFN2xTB'' then Some (MAX_ATOMS_XTB cfg)
      else if method = ''GFN1xTB'' then Some (MAX_ATOMS_XTB cfg)
      else None)"

text \<open>
  The part of \<^verbatim>\<open>run_xtb_ir\<close> after the \<^verbatim>\<open>try\<close> block, from the construction of the
  infrared calculator to the return. The infrared run writes into the working directory
  named by the hash, creating it when it is not there. Only the last two statements
  remove that directory; no statement before them is inside a \<^verbatim>\<open>try\<close>, so an
  exception raised on the way leaves this function at once.
\<close>

definition run_infrared_part ::
  "externals \<Rightarrow> settings \<Rightarrow> state \<Rightarrow> atoms \<Rightarrow> string \<Rightarrow> mol \<Rightarrow> string \<Rightarrow> real list
     \<Rightarrow> bool \<Rightarrow> real list option \<Rightarrow> real list option \<Rightarrow> (py_error + IRResult) \<times> state" where
  "run_infrared_part ext cfg st a method m this_hash moi linear' raman_intensities
       raman_spectrum =
     (let st1 = did InfraredRun st in
      case infrared_step ext a method of
        InfraredRaised e created \<Rightarrow> (Inl e, if created then mkdir this_hash st1 else st1)
      | InfraredDone ir \<Rightarrow>
          (let st2 = mkdir this_hash st1;
               spectrum = ir_spectrum ir
           in if (case raman_spectrum of
                    None \<Rightarrow> False
                  | Some rs \<Rightarrow> length (fst spectrum) \<noteq> length rs)
              then (Inl AssertionError, st2)
              else
                (case compile_all_bond_displacements m a ir of
                   Inl e \<Rightarrow> (Inl e, st2)
                 | Inr bond_displacements \<Rightarrow>
                     (let bonds = get_bonds_from_mol m in
                      case emap (get_alignment ext ir) [0..<3 * length (ir_indices ir)] of
                        Inl e \<Rightarrow> (Inl e, st2)
                      | Inr displacement_alignments \<Rightarrow>
                          (case compile_modes_info cfg ir linear' displacement_alignments
                                  (Some bond_displacements) bonds raman_intensities of
                             Inl e \<Rightarrow> (Inl e, st2)
                           | Inr (mode_info, has_imaginary, has_large_imaginary) \<Rightarrow>
                               (let result =
                                      \<lparr>wavenumbers = fst spectrum,
                                       intensities = snd spectrum,
                                       ramanIntensities = raman_spectrum,
                                       zeroPointEnergy = ir_zero_point_energy ir,
                                       modes = mode_info,
                                       hasImaginaryFrequency = has_imaginary,
                                       isLinear = linear',
                                       momentsOfInertia = moi,
                                       hasLargeImaginaryFrequency = has_large_imaginary\<rparr>;
                                    st3 = st2\<lparr>ir_cache := (ir_cache st2)(this_hash \<mapsto> result)\<rparr>
                                in case rmtree this_hash st3 of
                                     Inl e \<Rightarrow> (Inl e, st3)
                                   | Inr st4 \<Rightarrow> (Inr result, st4)))))))"

text \<open>
  \<^verbatim>\<open>run_xtb_ir(atoms, method, mol)\<close>. The \<^verbatim>\<open>except Exception\<close> handler of the Raman
  step removes the working directory with \<^verbatim>\<open>shutil.rmtree\<close> (which raises when the
  directory is not there) and sets both Raman values to \<^verbatim>\<open>None\<close>.
\<close>

definition run_xtb_ir ::
  "externals \<Rightarrow> settings \<Rightarrow> state \<Rightarrow> atoms \<Rightarrow> string \<Rightarrow> mol option
     \<Rightarrow> (py_error + IRResult) \<times> state" where
  "run_xtb_ir ext cfg st a method mol =
     (case mol of
        None \<Rightarrow> (Inl PlainException, st)
      | Some m \<Rightarrow>
          (let this_hash = ir_hash ext a method;
               moi = get_moments_of_inertia ext a;
               linear' = linear_of_moi moi
           in case ir_cache st this_hash of
                Some result \<Rightarrow> (Inr result, st)
              | None \<Rightarrow>
                  (let st1 = did RamanRun st in
                   case raman_step ext a method of
                     RamanDone raman_intensities raman_spectrum \<Rightarrow>
                       run_infrared_part ext cfg (mkdir this_hash st1) a method m this_hash moi
                         linear' (Some raman_intensities) (Some raman_spectrum)
                   | RamanRaised e created \<Rightarrow>
                       (let st2 = (if created then mkdir this_hash st1 else st1) in
                        case rmtree this_hash st2 of
                          Inl e' \<Rightarrow> (Inl e', st2)
                        | Inr st3 \<Rightarrow>
                            run_infrared_part ext cfg st3 a method m this_hash moi linear'
                              None None))))"

text \<open>
  The record that \<^verbatim>\<open>run_xtb_ir\<close> builds from the infrared calculator, the folded Raman
  spectrum and the compiled modes; a name for it, to state what the function returns.
\<close>

definition spectrum_result ::
  "infrared \<Rightarrow> real list option \<Rightarrow> mode_info list \<Rightarrow> bool \<Rightarrow> bool \<Rightarrow> real list \<Rightarrow> bool
     \<Rightarrow> IRResult" where
  "spectrum_result ir raman_spectrum mode_info has_imaginary lin moi has_large_imaginary =
     \<lparr>wavenumbers = fst (ir_spectrum ir),
      intensities = snd (ir_spectrum ir),
      ramanIntensities = raman_spectrum,
      zeroPointEnergy = ir_zero_point_energy ir,
      modes = mode_info,
      hasImaginaryFrequency = has_imaginary,
      isLinear = lin,
      momentsOfInertia = moi,
      hasLargeImaginaryFrequency = has_large_imaginary\<rparr>"

section \<open>Entry points and the final-result caches\<close>

definition calculate_from_smiles ::
  "externals \<Rightarrow> settings \<Rightarrow> state \<Rightarrow> string \<Rightarrow> string \<Rightarrow> string
     \<Rightarrow> (py_error + IRResult) \<times> state" where
  "calculate_from_smiles ext cfg st smiles method myhash =
     (case smiles2ase ext st smiles (get_max_atoms cfg method) of
        (Inl e, st1) \<Rightarrow> (Inl e, st1)
      | (Inr (a, m), st1) \<Rightarrow>
          (let st2 = did Optimized st1 in
           case run_xtb_opt ext a method of
             Inl e \<Rightarrow> (Inl e, st2)
           | Inr opt_atoms \<Rightarrow>
               (case run_xtb_ir ext cfg st2 opt_atoms method (Some m) of
                  (Inl e, st3) \<Rightarrow> (Inl e, st3)
                | (Inr result, st3) \<Rightarrow>
                    (Inr result,
                     st3\<lparr>ir_from_smiles_cache :=
                           (ir_from_smiles_cache st3)(myhash \<mapsto> result)\<rparr>))))"

definition ir_from_smiles ::
  "externals \<Rightarrow> settings \<Rightarrow> state \<Rightarrow> string \<Rightarrow> string \<Rightarrow> (py_error + IRResult) \<times> state" where
  "ir_from_smiles ext cfg st smiles method =
     (let myhash = hash_object ext (smiles @ method) in
      case ir_from_smiles_cache st myhash of
        Some result \<Rightarrow> (Inr result, st)
      | None \<Rightarrow> calculate_from_smiles ext cfg st smiles method myhash)"

definition calculate_from_molfile ::
  "externals \<Rightarrow> settings \<Rightarrow> state \<Rightarrow> string \<Rightarrow> string \<Rightarrow> string
     \<Rightarrow> (py_error + IRResult) \<times> state" where
  "calculate_from_molfile ext cfg st molfile method myhash =
     (case molfile2ase ext st molfile (get_max_atoms cfg method) of
        (Inl e, st1) \<Rightarrow> (Inl e, st1)
      | (Inr (a, m), st1) \<Rightarrow>
          (let st2 = did Optimized st1 in
           case run_xtb_opt ext a method of
             Inl e \<Rightarrow> (Inl e, st2)
           | Inr opt_atoms \<Rightarrow>
               (case run_xtb_ir ext cfg st2 opt_atoms method (Some m) of
                  (Inl e, st3) \<Rightarrow> (Inl e, st3)
                | (Inr result, st3) \<Rightarrow>
                    (Inr result,
                     st3\<lparr>ir_from_molfile_cache :=
                           (ir_from_molfile_cache st3)(myhash \<mapsto> result)\<rparr>))))"

definition ir_from_molfile ::
  "externals \<Rightarrow> settings \<Rightarrow> state \<Rightarrow> string \<Rightarrow> string \<Rightarrow> (py_error + IRResult) \<times> state" where
  "ir_from_molfile ext cfg st molfile method =
     (let myhash = hash_object ext (molfile @ method) in
      case ir_from_molfile_cache st myhash of
        Some result \<Rightarrow> (Inr result, st)
      | None \<Rightarrow> calculate_from_molfile ext cfg st molfile method myhash)"

section \<open>Concrete inputs\<close>



text \<open>
  A small world to run the service in. The parser knows water (\<^verbatim>\<open>O\<close>, one heavy atom,
  three atoms with its hydrogens) and molecular hydrogen; the embedding puts the atoms on
  a line, three units apart; the optimizer returns its input; the engine returns the six
  modes of a diatomic molecule: three translations, two rotations and the stretch. The
  hash is the identity, so that keys can be read. \<open>world\<close> takes the outcomes of the
  two engine steps, so that each of them can be made to raise.
\<close>

definition water :: mol where
  "water = \<lparr>mol_atoms = [''O''], mol_bonds = [], mol_conformer = None\<rparr>"

definition water_h :: mol where
  "water_h = \<lparr>mol_atoms = [''O'', ''H'', ''H''], mol_bonds = [(0, 1), (0, 2)],
              mol_conformer = None\<rparr>"

definition hydrogen :: mol where
  "hydrogen = \<lparr>mol_atoms = [''H'', ''H''], mol_bonds = [(0, 1)], mol_conformer = None\<rparr>"

definition on_a_line :: "mol \<Rightarrow> mol" where
  "on_a_line m =
     m\<lparr>mol_conformer := Some (map (\<lambda>i. (3 * real i, 0, 0)) [0..<length (mol_atoms m)])\<rparr>"

definition h2_infrared :: infrared where
  "h2_infrared =
     \<lparr>ir_indices = [0, 1],
      ir_frequencies = [(0, 0), (0, 0), (0, 0), (0, 0), (0, 0), (4400, 0)],
      ir_modes = [[(1, 0, 0), (1, 0, 0)], [(0, 1, 0), (0, 1, 0)], [(0, 0, 1), (0, 0, 1)],
                  [(0, 2, 0), (0, - 2, 0)], [(0, 0, 2), (0, 0, - 2)],
                  [(1, 0, 0), (- 1, 0, 0)]],
      ir_intensities = [0, 0, 0, 0, 0, 1],
      ir_spectrum = ([0, 4000], [0, 0]),
      ir_zero_point_energy = 1 / 4\<rparr>"

definition h2_raman :: "real list" where
  "h2_raman = [0, 0, 0, 0, 0, 1]"

definition world :: "raman_outcome \<Rightarrow> infrared_outcome \<Rightarrow> externals" where
  "world raman ir =
     \<lparr>hash_object = (\<lambda>s. s),
      str_symbols = concat,
      str_positions = (\<lambda>ps. []),
      MolFromSmiles = (\<lambda>s. if s = ''O'' then Some water
                             else if s = ''[H][H]'' then Some hydrogen else None),
      MolFromMolBlock = (\<lambda>s. if s = ''h2.mol'' then Some hydrogen else None),
      AddHs = (\<lambda>m. if m = water then water_h else m),
      embed_conformer = (\<lambda>m. Inr (on_a_line m)),
      run_xtb_opt = (\<lambda>a method. Inr a),
      get_moments_of_inertia = (\<lambda>a. [0, 1, 1]),
      raman_step = (\<lambda>a method. raman),
      infrared_step = (\<lambda>a method. ir),
      cosine = (\<lambda>u v. 0)\<rparr>"

definition toy :: externals where
  "toy = world (RamanDone h2_raman [0, 0]) (InfraredDone h2_infrared)"

definition cfg0 :: settings where
  "cfg0 = \<lparr>MAX_ATOMS_FF = 100, MAX_ATOMS_XTB = 60, IMAGINARY_FREQ_THRESHOLD = 10\<rparr>"

definition st0 :: state where
  "st0 = \<lparr>conformer_cache = Map.empty, ir_cache = Map.empty,
          ir_from_smiles_cache = Map.empty, ir_from_molfile_cache = Map.empty,
          scratch_dirs = {}, work_log = []\<rparr>"

definition water_atoms :: atoms where
  "water_atoms = \<lparr>symbols = [''O'', ''H'', ''H''],
                  positions = [(0, 0, 0), (3, 0, 0), (6, 0, 0)]\<rparr>"

definition st_water :: state where
  "st_water = st0\<lparr>conformer_cache := [''O'' \<mapsto> (water_atoms, on_a_line water_h)],
                  work_log := [Embedded]\<rparr>"

definition h2_atoms :: atoms where
  "h2_atoms = \<lparr>symbols = [''H'', ''H''], positions = [(0, 0, 0), (3, 0, 0)]\<rparr>"

definition h2_alignments :: "real list" where
  "h2_alignments = [0, 0, 0, 0, 0, 0]"

definition h2_rows :: "real list list" where
  "h2_rows = [[0], [0], [0], [2], [2], [2]]"

definition h2_bonds :: "(nat \<times> nat) list" where
  "h2_bonds = [(0, 1)]"

definition h2_modes :: "bool \<Rightarrow> real option list \<Rightarrow> mode_info list" where
  "h2_modes lin raman =
     map (\<lambda>(k, t, i, w).
            \<lparr>number = k, intensity = i, ramanIntensity = raman ! k, wavenumber = w,
             imaginary = False, mostContributingAtoms = [0, 1],
             mostContributingBonds = Some [(0, 1)], modeType = t,
             displacementAlignment = 0\<rparr>)
       [(0, Translation, 0, 0), (1, Translation, 0, 0), (2, Translation, 0, 0),
        (3, Rotation, 0, 0), (4, Rotation, 0, 0),
        (5, if lin then Vibration else Translation, 1, 4400)]"

definition h2_result :: "real list option \<Rightarrow> IRResult" where
  "h2_result raman =
     \<lparr>wavenumbers = [0, 4000], intensities = [0, 0],
      ramanIntensities = (case raman of None \<Rightarrow> None | Some rs \<Rightarrow> Some [0, 0]),
      zeroPointEnergy = 1 / 4,
      modes = h2_modes True (raman_column 6 raman),
      hasImaginaryFrequency = False, isLinear = True, momentsOfInertia = [0, 1, 1],
      hasLargeImaginaryFrequency = False\<rparr>"

definition st_h2 :: state where
  "st_h2 = \<lparr>conformer_cache = [''[H][H]'' \<mapsto> (h2_atoms, on_a_line hydrogen)],
            ir_cache = [''HHGFNFF'' \<mapsto> h2_result (Some h2_raman)],
            ir_from_smiles_cache = [''[H][H]GFNFF'' \<mapsto> h2_result (Some h2_raman)],
            ir_from_molfile_cache = Map.empty,
            scratch_dirs = {},
            work_log = [Embedded, Optimized, RamanRun, InfraredRun]\<rparr>"

definition st_h2_molfile :: state where
  "st_h2_molfile =
     \<lparr>conformer_cache = [''h2.mol'' \<mapsto> (h2_atoms, on_a_line hydrogen)],
      ir_cache = [''HHGFNFF'' \<mapsto> h2_result (Some h2_raman)],
      ir_from_smiles_cache = Map.empty,
      ir_from_molfile_cache = [''h2.molGFNFF'' \<mapsto> h2_result (Some h2_raman)],
      scratch_dirs = {},
      work_log = [Embedded, Optimized, RamanRun, InfraredRun]\<rparr>"

section \<open>What the specification says about the selection threshold\<close>




section \<open>Properties of the numpy operations\<close>





lemma set_np_where_gt: "i \<in> set (np_where_gt xs t) \<longleftrightarrow> i < length xs \<and> xs ! i > t"
  by (auto simp: np_where_gt_def)


section \<open>The selection rule of the source\<close>



lemma select_bonds_in_range:
  assumes "ds \<noteq> []" and "select_most_contributing_bonds ds t = Inr sel" and "i \<in> set sel"
  shows "i < length ds"
proof (cases "length ds > 1")
  case True
  then show ?thesis using assms(2,3)
    by (auto simp: select_most_contributing_bonds_def Let_def set_np_where_gt
             split: sum.splits if_splits)
next
  case False
  then show ?thesis using assms
    by (cases ds) (auto simp: select_most_contributing_bonds_def)
qed

lemma sqrt25: "sqrt 25 = 5"
  using real_sqrt_abs[of 5] by simp



section \<open>Sorting by frequency, the loop and its body\<close>





lemma modes_loop_Inr:
  assumes "modes_loop body ks (ms, hi, hl) = Inr (ms', hi', hl')"
  shows "\<exists>rs. length rs = length ks
            \<and> (\<forall>j. j < length ks \<longrightarrow> body (ks ! j) = Inr (rs ! j))
            \<and> ms' = ms @ map fst rs
            \<and> hi' = (hi \<or> (\<exists>r \<in> set rs. fst (snd r)))
            \<and> hl' = (hl \<or> (\<exists>r \<in> set rs. snd (snd r)))"
  using assms
proof (induction ks arbitrary: ms hi hl)
  case Nil
  then show ?case by simp
next
  case (Cons k ks)
  from Cons.prems obtain m im large where
    b: "body k = Inr (m, im, large)" and
    rest: "modes_loop body ks (ms @ [m], hi \<or> im, hl \<or> large) = Inr (ms', hi', hl')"
    by (auto split: sum.splits)
  from Cons.IH[OF rest] obtain rs where rs:
    "length rs = length ks"
    "\<forall>j. j < length ks \<longrightarrow> body (ks ! j) = Inr (rs ! j)"
    "ms' = (ms @ [m]) @ map fst rs"
    "hi' = ((hi \<or> im) \<or> (\<exists>r \<in> set rs. fst (snd r)))"
    "hl' = ((hl \<or> large) \<or> (\<exists>r \<in> set rs. snd (snd r)))"
    by blast
  let ?rs = "(m, im, large) # rs"
  have "\<forall>j. j < length (k # ks) \<longrightarrow> body ((k # ks) ! j) = Inr (?rs ! j)"
    using b rs(2) by (auto simp: nth_Cons split: nat.splits)
  moreover have "length ?rs = length (k # ks)" using rs(1) by simp
  moreover have "ms' = ms @ map fst ?rs" using rs(3) by simp
  moreover have "hi' = (hi \<or> (\<exists>r \<in> set ?rs. fst (snd r)))" using rs(4) by auto
  moreover have "hl' = (hl \<or> (\<exists>r \<in> set ?rs. snd (snd r)))" using rs(5) by auto
  ultimately show ?case by blast
qed

lemma modes_loop_all:
  assumes "\<And>k. k \<in> set ks \<Longrightarrow> body k = Inr (f k, False, False)"
  shows "modes_loop body ks (ms, hi, hl) = Inr (ms @ map f ks, hi, hl)"
  using assms by (induction ks arbitrary: ms) simp_all





lemma compile_modes_info_Inr:
  assumes "compile_modes_info cfg ir lin al bd bonds raman = Inr (ms, hi, hl)"
  shows "2 < length al \<and> length ms = 3 * length (ir_indices ir)
       \<and> (\<forall>k. k < 3 * length (ir_indices ir) \<longrightarrow>
            (\<exists>im large. mode_body cfg ir lin al (rev (sort al) ! 2) bd bonds
                 (raman_column (3 * length (ir_indices ir)) raman) k = Inr (ms ! k, im, large)))"
proof -
  let ?N = "3 * length (ir_indices ir)"
  let ?body = "mode_body cfg ir lin al (rev (sort al) ! 2) bd bonds (raman_column ?N raman)"
  from assms have len: "2 < length al"
    by (auto simp: compile_modes_info_def ebind_def py_index_def Let_def split: if_splits)
  with assms have loop: "modes_loop ?body [0..<?N] ([], False, False) = Inr (ms, hi, hl)"
    by (simp add: compile_modes_info_def ebind_def py_index_def Let_def raman_column_def)
  from modes_loop_Inr[OF loop] obtain rs where rs:
    "length rs = length [0..<?N]"
    "\<forall>j. j < length [0..<?N] \<longrightarrow> ?body ([0..<?N] ! j) = Inr (rs ! j)"
    "ms = [] @ map fst rs" by blast
  have "length ms = ?N" using rs(1,3) by simp
  moreover have "\<forall>k. k < ?N \<longrightarrow> (\<exists>im large. ?body k = Inr (ms ! k, im, large))"
  proof (intro allI impI)
    fix k assume k: "k < ?N"
    then have "?body k = Inr (rs ! k)" using rs(2) by simp
    moreover have "ms ! k = fst (rs ! k)" using rs(1,3) k by simp
    ultimately show "\<exists>im large. ?body k = Inr (ms ! k, im, large)"
      by (metis prod.collapse)
  qed
  ultimately show ?thesis using len by blast
qed

lemma emap_py_index_Inr:
  assumes "emap (py_index xs) sel = Inr ys"
  shows "ys = map (\<lambda>i. xs ! i) sel \<and> (\<forall>i \<in> set sel. i < length xs)"
  using assms
  by (induction sel arbitrary: ys) (auto simp: py_index_def split: sum.splits if_splits)

lemma mode_body_bonds:
  assumes "mode_body cfg ir lin al third (Some bd) bonds raman k = Inr (m, im, large)"
  shows "\<exists>row sel. py_index bd (number m) = Inr row
            \<and> select_most_contributing_bonds row default_threshold = Inr sel
            \<and> (\<forall>i \<in> set sel. i < length bonds)
            \<and> mostContributingBonds m = Some (map (\<lambda>i. bonds ! i) sel)"
  using assms
  by (auto simp: mode_body_def Let_def ebind_def
           split: if_splits sum.splits prod.splits dest!: emap_py_index_Inr)

lemma returned_bonds_exist:
  assumes "compile_modes_info cfg ir lin al (Some bd) bonds raman = Inr (ms, hi, hl)"
    and "m \<in> set ms"
  shows "\<exists>sel. (\<forall>i \<in> set sel. i < length bonds)
            \<and> mostContributingBonds m = Some (map (\<lambda>i. bonds ! i) sel)"
proof -
  from assms(2) obtain k where k: "k < length ms" "ms ! k = m"
    by (auto simp: in_set_conv_nth)
  from compile_modes_info_Inr[OF assms(1)] k obtain im large where
    "mode_body cfg ir lin al (rev (sort al) ! 2) (Some bd) bonds
       (raman_column (3 * length (ir_indices ir)) raman) k = Inr (m, im, large)"
    by auto
  from mode_body_bonds[OF this] show ?thesis by blast
qed

section \<open>The structure builder: cache, parser result and atom-count check\<close>

lemma smiles2ase_too_large:
  assumes "conformer_cache st smiles = None" and "MolFromSmiles ext smiles = Some m"
    and "GetNumAtoms m > max_atoms"
  shows "smiles2ase ext st smiles (Some max_atoms) = (Inl TooLargeError, st)"
  using assms by (simp add: smiles2ase_def check_max_atoms_def)


lemma molfile2ase_too_large:
  assumes "conformer_cache st molfile = None" and "MolFromMolBlock ext molfile = Some m"
    and "GetNumAtoms m > max_atoms"
  shows "molfile2ase ext st molfile (Some max_atoms) = (Inl TooLargeError, st)"
  using assms by (simp add: molfile2ase_def check_max_atoms_def)


lemma too_large_fails_fast:
  assumes "conformer_cache st smiles = None" and "MolFromSmiles ext smiles = Some m"
    and "get_max_atoms cfg method = Some limit" and "GetNumAtoms m > limit"
  shows "calculate_from_smiles ext cfg st smiles method h = (Inl TooLargeError, st)"
  using assms by (simp add: calculate_from_smiles_def smiles2ase_too_large)

lemma too_large_molfile_fails_fast:
  assumes "conformer_cache st molfile = None" and "MolFromMolBlock ext molfile = Some m"
    and "get_max_atoms cfg method = Some limit" and "GetNumAtoms m > limit"
  shows "calculate_from_molfile ext cfg st molfile method h = (Inl TooLargeError, st)"
  using assms by (simp add: calculate_from_molfile_def molfile2ase_too_large)

lemma unparseable_smiles:
  assumes "conformer_cache st smiles = None" and "MolFromSmiles ext smiles = None"
  shows "smiles2ase ext st smiles max_atoms = (Inl AttributeError, st)"
  using assms by (simp add: smiles2ase_def check_max_atoms_def)

lemma unparseable_molfile:
  assumes "conformer_cache st molfile = None" and "MolFromMolBlock ext molfile = None"
  shows "molfile2ase ext st molfile max_atoms = (Inl AttributeError, st)"
  using assms by (simp add: molfile2ase_def)

lemma cached_structure_skips_check:
  assumes "conformer_cache st key = Some result"
  shows "smiles2ase ext st key max_atoms = (Inr result, st)"
    and "molfile2ase ext st key max_atoms = (Inr result, st)"
  using assms by (simp_all add: smiles2ase_def molfile2ase_def)

section \<open>The analysis and the entry points\<close>

lemma run_infrared_part_ok:
  assumes "infrared_step ext a method = InfraredDone ir"
    and "case raman_spectrum of None \<Rightarrow> True
           | Some rs \<Rightarrow> length (fst (ir_spectrum ir)) = length rs"
    and "compile_all_bond_displacements m a ir = Inr bd"
    and "emap (get_alignment ext ir) [0..<3 * length (ir_indices ir)] = Inr al"
    and "compile_modes_info cfg ir lin al (Some bd) (get_bonds_from_mol m) ri = Inr (mi, hi, hl)"
  shows "run_infrared_part ext cfg st a method m h moi lin ri raman_spectrum
           = (Inr (spectrum_result ir raman_spectrum mi hi lin moi hl),
              st\<lparr>work_log := work_log st @ [InfraredRun],
                 ir_cache := (ir_cache st)(h \<mapsto> spectrum_result ir raman_spectrum mi hi lin moi hl),
                 scratch_dirs := scratch_dirs st - {h}\<rparr>)"
  using assms
  by (cases raman_spectrum)
     (simp_all add: run_infrared_part_def Let_def did_def mkdir_def rmtree_def
        spectrum_result_def)



lemma run_xtb_ir_raman_done:
  assumes "ir_cache st (ir_hash ext a method) = None"
    and "raman_step ext a method = RamanDone ri rs"
  shows "run_xtb_ir ext cfg st a method (Some m)
           = run_infrared_part ext cfg
               (st\<lparr>work_log := work_log st @ [RamanRun],
                   scratch_dirs := insert (ir_hash ext a method) (scratch_dirs st)\<rparr>)
               a method m (ir_hash ext a method) (get_moments_of_inertia ext a)
               (linear_of_moi (get_moments_of_inertia ext a)) (Some ri) (Some rs)"
  using assms by (simp add: run_xtb_ir_def Let_def did_def mkdir_def)

lemma run_infrared_part_cleans:
  assumes "run_infrared_part ext cfg st a method m h moi lin ri rs = (Inr r, st')"
  shows "h \<notin> scratch_dirs st'"
  using assms
  by (auto simp: run_infrared_part_def Let_def rmtree_def
           split: infrared_outcome.splits sum.splits if_splits prod.splits option.splits)

lemma run_xtb_ir_success_cleans:
  assumes "ir_cache st (ir_hash ext a method) = None"
    and "run_xtb_ir ext cfg st a method mol = (Inr r, st')"
  shows "ir_hash ext a method \<notin> scratch_dirs st'"
  using assms
  by (auto simp: run_xtb_ir_def Let_def
           split: option.splits raman_outcome.splits sum.splits
           dest: run_infrared_part_cleans)

lemma ir_from_smiles_stores:
  assumes "ir_from_smiles ext cfg st smiles method = (Inr r, st')"
  shows "ir_from_smiles_cache st' (hash_object ext (smiles @ method)) = Some r"
  using assms
  by (auto simp: ir_from_smiles_def calculate_from_smiles_def Let_def
           split: option.splits prod.splits sum.splits)

lemma ir_from_molfile_stores:
  assumes "ir_from_molfile ext cfg st molfile method = (Inr r, st')"
  shows "ir_from_molfile_cache st' (hash_object ext (molfile @ method)) = Some r"
  using assms
  by (auto simp: ir_from_molfile_def calculate_from_molfile_def Let_def
           split: option.splits prod.splits sum.splits)

lemma failure_after_infrared_run_leaves_directory:
  assumes "infrared_step ext a method = InfraredDone ir"
    and "run_infrared_part ext cfg st a method m h moi lin ri rs = (Inl e, st')"
  shows "h \<in> scratch_dirs st'"
  using assms
  by (auto simp: run_infrared_part_def Let_def rmtree_def mkdir_def did_def
           split: sum.splits if_splits prod.splits option.splits)

lemma infrared_failure_leaves_directory:
  assumes "ir_cache st (ir_hash ext a method) = None"
    and "raman_step ext a method = RamanDone ri rs"
    and "infrared_step ext a method = InfraredRaised e c"
  shows "fst (run_xtb_ir ext cfg st a method (Some m)) = Inl e
       \<and> ir_hash ext a method \<in> scratch_dirs (snd (run_xtb_ir ext cfg st a method (Some m)))"
  using assms
  by (simp add: run_xtb_ir_def run_infrared_part_def Let_def mkdir_def did_def)

section \<open>The service in the small world\<close>

lemma sqrt9: "sqrt 9 = 3" using real_sqrt_abs[of 3] by simp

lemma world_fields:
  "hash_object (world r i) = (\<lambda>s. s)"
  "str_symbols (world r i) = concat"
  "str_positions (world r i) = (\<lambda>ps. [])"
  "MolFromSmiles (world r i) = (\<lambda>s. if s = ''O'' then Some water
                             else if s = ''[H][H]'' then Some hydrogen else None)"
  "MolFromMolBlock (world r i) = (\<lambda>s. if s = ''h2.mol'' then Some hydrogen else None)"
  "AddHs (world r i) = (\<lambda>m. if m = water then water_h else m)"
  "embed_conformer (world r i) = (\<lambda>m. Inr (on_a_line m))"
  "run_xtb_opt (world r i) = (\<lambda>a method. Inr a)"
  "get_moments_of_inertia (world r i) = (\<lambda>a. [0, 1, 1])"
  "raman_step (world r i) = (\<lambda>a method. r)"
  "infrared_step (world r i) = (\<lambda>a method. i)"
  "cosine (world r i) = (\<lambda>u v. 0)"
  by (simp_all add: world_def)

lemma h2_argsort: "argsort (ir_frequencies h2_infrared) = [0, 1, 2, 3, 4, 5]"
  by (simp add: argsort_def h2_infrared_def upt_rec)

lemma h2_num_modes: "3 * length (ir_indices h2_infrared) = 6"
  by (simp add: h2_infrared_def)

lemma h2_built: "on_a_line hydrogen
   = \<lparr>mol_atoms = [''H'', ''H''], mol_bonds = [(0, 1)],
      mol_conformer = Some [(0, 0, 0), (3, 0, 0)]\<rparr>"
  by (simp add: on_a_line_def hydrogen_def upt_rec)

lemma h2_bond_displacements:
  "compile_all_bond_displacements (on_a_line hydrogen) h2_atoms h2_infrared = Inr h2_rows"
  by (simp add: compile_all_bond_displacements_def h2_infrared_def upt_rec ebind_def
        get_mode_def py_index_def get_bond_displacements_def get_bonds_from_mol_def
        h2_built h2_atoms_def get_displaced_positions_def h2_rows_def
        get_bond_vector_def vadd_def vsub_def vsum_def norm3_def sqrt9 sqrt25)

lemma h2_alignments_computed:
  assumes "cosine ext = (\<lambda>u v. 0)"
  shows "emap (get_alignment ext h2_infrared) [0..<3 * length (ir_indices h2_infrared)]
     = Inr h2_alignments"
  by (simp add: h2_infrared_def upt_rec get_alignment_def ebind_def get_mode_def py_index_def
        np_mean_def assms h2_alignments_def)

lemma h2_third: "py_index (rev (sort h2_alignments)) 2 = Inr 0"
  by (simp add: h2_alignments_def py_index_def)

lemma h2_body:
  assumes "k < 6" and "length raman = 6"
  shows "mode_body cfg0 h2_infrared lin h2_alignments 0 (Some h2_rows) h2_bonds raman k
           = Inr (h2_modes lin raman ! k, False, False)"
  using assms
  apply (simp add: mode_body_def Let_def h2_argsort)
  apply (simp add: h2_infrared_def ebind_def classify_mode_def clean_frequency_def
      py_index_def select_most_contributing_bonds_def get_mode_def h2_modes_def
      h2_alignments_def h2_rows_def h2_bonds_def less_Suc_eq numeral_eq_Suc)
  by (auto simp: select_most_contributing_atoms_def norm3_def default_threshold_def
        np_where_gt_def upt_rec)

lemma h2_modes_length: "length (h2_modes lin raman) = 6"
  by (simp add: h2_modes_def)

lemma h2_compile:
  assumes "length (raman_column 6 raman) = 6"
  shows "compile_modes_info cfg0 h2_infrared lin h2_alignments (Some h2_rows) h2_bonds raman
           = Inr (h2_modes lin (raman_column 6 raman), False, False)"
proof -
  let ?rc = "raman_column 6 raman"
  let ?body = "mode_body cfg0 h2_infrared lin h2_alignments 0 (Some h2_rows) h2_bonds ?rc"
  have "modes_loop ?body [0..<6] ([], False, False)
          = Inr ([] @ map (\<lambda>k. h2_modes lin ?rc ! k) [0..<6], False, False)"
    by (rule modes_loop_all) (simp add: h2_body[OF _ assms])
  moreover have "map (\<lambda>k. h2_modes lin ?rc ! k) [0..<6] = h2_modes lin ?rc"
    using map_nth[of "h2_modes lin ?rc"] by (simp add: h2_modes_length)
  ultimately have loop: "modes_loop ?body [0..<6] ([], False, False)
          = Inr (h2_modes lin ?rc, False, False)" by simp
  show ?thesis
    unfolding compile_modes_info_def Let_def h2_num_modes
    using loop by (simp add: h2_third ebind_def raman_column_def)
qed

lemma h2_hash: "ir_hash (world r i) h2_atoms method = ''HH'' @ method"
  by (simp add: ir_hash_def hash_atoms_def world_fields h2_atoms_def)

lemma linear_011: "linear_of_moi [0, 1, 1]"
  by (simp add: linear_of_moi_def moi_threshold_def)

lemma h2_linear: "linear_of_moi (get_moments_of_inertia (world r i) a)"
  by (simp add: world_fields linear_011)

lemma h2_compile_world:
  assumes "length (raman_column 6 raman) = 6"
  shows "compile_modes_info cfg0 h2_infrared
           (linear_of_moi (get_moments_of_inertia (world r i) a)) h2_alignments
           (Some h2_rows) (get_bonds_from_mol (on_a_line hydrogen)) raman
         = Inr (h2_modes True (raman_column 6 raman), False, False)"
  using h2_compile[OF assms, of True]
  by (simp add: h2_linear get_bonds_from_mol_def h2_built h2_bonds_def)

lemma h2_spectrum_result:
  "spectrum_result h2_infrared rs (h2_modes True (raman_column 6 raman)) False True [0, 1, 1] False
   = (h2_result raman)\<lparr>ramanIntensities := rs\<rparr>"
  by (simp add: spectrum_result_def h2_result_def h2_infrared_def)

lemma h2_infrared_part:
  assumes "case rs of None \<Rightarrow> True | Some xs \<Rightarrow> length xs = 2"
    and "length (raman_column 6 raman) = 6"
  shows "run_infrared_part (world r (InfraredDone h2_infrared)) cfg0 st h2_atoms method
            (on_a_line hydrogen) h
            (get_moments_of_inertia (world r (InfraredDone h2_infrared)) h2_atoms)
            (linear_of_moi (get_moments_of_inertia (world r (InfraredDone h2_infrared)) h2_atoms))
            raman rs
         = (Inr ((h2_result raman)\<lparr>ramanIntensities := rs\<rparr>),
            st\<lparr>work_log := work_log st @ [InfraredRun],
               ir_cache := (ir_cache st)(h \<mapsto> (h2_result raman)\<lparr>ramanIntensities := rs\<rparr>),
               scratch_dirs := scratch_dirs st - {h}\<rparr>)"
proof -
  have sp: "case rs of None \<Rightarrow> True
            | Some xs \<Rightarrow> length (fst (ir_spectrum h2_infrared)) = length xs"
    using assms(1) by (cases rs) (simp_all add: h2_infrared_def)
  have al: "emap (get_alignment (world r (InfraredDone h2_infrared)) h2_infrared)
              [0..<3 * length (ir_indices h2_infrared)] = Inr h2_alignments"
    by (rule h2_alignments_computed) (simp add: world_fields)
  show ?thesis
    by (subst run_infrared_part_ok[OF _ sp h2_bond_displacements al
          h2_compile_world[OF assms(2)]])
       (simp_all add: world_fields linear_011 h2_spectrum_result)
qed

lemma h2_result_some: "(h2_result (Some h2_raman))\<lparr>ramanIntensities := Some [0, 0]\<rparr>
   = h2_result (Some h2_raman)"
  by (simp add: h2_result_def)


lemma h2_analysis:
  assumes "ir_cache st (''HH'' @ method) = None"
  shows "run_xtb_ir (world (RamanDone h2_raman [0, 0]) (InfraredDone h2_infrared)) cfg0 st
            h2_atoms method (Some (on_a_line hydrogen))
         = (Inr (h2_result (Some h2_raman)),
            st\<lparr>work_log := work_log st @ [RamanRun, InfraredRun],
               ir_cache := (ir_cache st)(''HH'' @ method \<mapsto> h2_result (Some h2_raman)),
               scratch_dirs := scratch_dirs st - {''HH'' @ method}\<rparr>)"
proof -
  let ?w = "world (RamanDone h2_raman [0, 0]) (InfraredDone h2_infrared)"
  have miss: "ir_cache st (ir_hash ?w h2_atoms method) = None"
    using assms by (simp add: h2_hash)
  have r: "raman_step ?w h2_atoms method = RamanDone h2_raman [0, 0]"
    by (simp add: world_fields)
  have len: "length (raman_column 6 (Some h2_raman)) = 6"
    by (simp add: raman_column_def h2_raman_def)
  show ?thesis
    unfolding run_xtb_ir_raman_done[OF miss r] h2_hash
    by (subst h2_infrared_part[OF _ len]) (simp_all add: h2_result_some)
qed



lemma h2_analysis_infrared_raises:
  "run_xtb_ir (world (RamanDone ri rs) (InfraredRaised e c)) cfg0 st0 h2_atoms method
      (Some (on_a_line hydrogen))
    = (Inl e, st0\<lparr>work_log := [RamanRun, InfraredRun], scratch_dirs := {''HH'' @ method}\<rparr>)"
  by (simp add: run_xtb_ir_def run_infrared_part_def Let_def h2_hash world_fields st0_def
        did_def mkdir_def)

lemma h2_built_by_smiles:
  "smiles2ase (world r i) st0 ''[H][H]'' (Some 100)
     = (Inr (h2_atoms, on_a_line hydrogen),
        st0\<lparr>work_log := [Embedded],
            conformer_cache := [''[H][H]'' \<mapsto> (h2_atoms, on_a_line hydrogen)]\<rparr>)"
  by (simp add: smiles2ase_def world_fields st0_def check_max_atoms_def GetNumAtoms_def
        embed_and_store_def did_def rdkit2ase_def h2_built h2_atoms_def)
     (simp add: hydrogen_def water_def)

lemma h2_from_smiles:
  "ir_from_smiles toy cfg0 st0 ''[H][H]'' ''GFNFF'' = (Inr (h2_result (Some h2_raman)), st_h2)"
proof -
  let ?st1 = "st0\<lparr>work_log := [Embedded, Optimized],
            conformer_cache := [''[H][H]'' \<mapsto> (h2_atoms, on_a_line hydrogen)]\<rparr>"
  have miss: "ir_cache ?st1 (''HH'' @ ''GFNFF'') = None" by (simp add: st0_def)
  have lim: "get_max_atoms cfg0 ''GFNFF'' = Some 100"
    by (simp add: get_max_atoms_def cfg0_def)
  show ?thesis
    unfolding ir_from_smiles_def calculate_from_smiles_def toy_def Let_def lim
      h2_built_by_smiles
    apply (simp add: world_fields st0_def did_def)
    apply (subst h2_analysis)
     apply simp
    by (simp add: st_h2_def world_fields)
qed

lemma water_built:
  "smiles2ase toy st0 ''O'' (Some 2) = (Inr (water_atoms, on_a_line water_h), st_water)"
  by (simp add: smiles2ase_def toy_def world_fields st0_def st_water_def check_max_atoms_def
        GetNumAtoms_def water_def water_h_def embed_and_store_def did_def rdkit2ase_def
        on_a_line_def water_atoms_def upt_rec)

lemma water_cached:
  "smiles2ase toy st_water ''O'' (Some 0) = (Inr (water_atoms, on_a_line water_h), st_water)"
  by (simp add: smiles2ase_def st_water_def st0_def)

lemma h2_built_by_molfile:
  "molfile2ase (world r i) st0 ''h2.mol'' (Some 100)
     = (Inr (h2_atoms, on_a_line hydrogen),
        st0\<lparr>work_log := [Embedded],
            conformer_cache := [''h2.mol'' \<mapsto> (h2_atoms, on_a_line hydrogen)]\<rparr>)"
  by (simp add: molfile2ase_def world_fields st0_def check_max_atoms_def GetNumAtoms_def
        embed_and_store_def did_def rdkit2ase_def h2_built h2_atoms_def)
     (simp add: hydrogen_def)

lemma h2_from_molfile:
  "ir_from_molfile toy cfg0 st0 ''h2.mol'' ''GFNFF''
     = (Inr (h2_result (Some h2_raman)), st_h2_molfile)"
proof -
  have lim: "get_max_atoms cfg0 ''GFNFF'' = Some 100"
    by (simp add: get_max_atoms_def cfg0_def)
  show ?thesis
    unfolding ir_from_molfile_def calculate_from_molfile_def toy_def Let_def lim
      h2_built_by_molfile
    apply (simp add: world_fields st0_def did_def)
    apply (subst h2_analysis)
     apply simp
    by (simp add: st_h2_molfile_def world_fields)
qed

section \<open>Claims\<close>



text \<open>
  Claim C2, as the source has it: the molecule is classified as linear if and only if
  exactly two of the three principal moments of inertia exceed 0.01. Three moments
  above the threshold give a nonlinear molecule.
\<close>

theorem C2_linear_iff_exactly_two:
  "linear_of_moi [a, b, c]
     = ((1 / 100 < a \<and> 1 / 100 < b \<and> c \<le> 1 / 100)
        \<or> (1 / 100 < a \<and> b \<le> 1 / 100 \<and> 1 / 100 < c)
        \<or> (a \<le> 1 / 100 \<and> 1 / 100 < b \<and> 1 / 100 < c))"
  by (auto simp: linear_of_moi_def moi_threshold_def)

text \<open>
  Claim C2 as the specification words it ("at least two") fails for moments 1, 1, 1:
  all three exceed the threshold and the molecule is not classified as linear.
\<close>

theorem C2_at_least_two_counterexample:
  "\<not> linear_of_moi [1, 1, 1]
   \<and> 2 \<le> length (filter (\<lambda>m. m > moi_threshold) [1, 1, 1])"
  by (simp add: linear_of_moi_def moi_threshold_def)




text \<open>
  Claim C4 (every input whose atom count exceeds the limit raises TooLargeError before
  any embedding) fails on the source in two ways, evaluated here. On the SMILES path
  the count is taken before the hydrogens are added: water has one atom as parsed and
  three as built, and with a limit of 2 it is embedded and returned. And a structure that
  is already in the conformer cache is returned without any check, here with a limit
  of 0.
\<close>

theorem C4_oversized_structure_is_built:
  "smiles2ase toy st0 ''O'' (Some 2) = (Inr (water_atoms, on_a_line water_h), st_water)
   \<and> length (symbols water_atoms) = 3
   \<and> work_log st_water = [Embedded]
   \<and> GetNumAtoms water = 1
   \<and> smiles2ase toy st_water ''O'' (Some 0) = (Inr (water_atoms, on_a_line water_h), st_water)"
proof -
  have a: "length (symbols water_atoms) = 3" by (simp add: water_atoms_def)
  have b: "work_log st_water = [Embedded]" by (simp add: st_water_def)
  have c: "GetNumAtoms water = 1" by (simp add: GetNumAtoms_def water_def)
  show ?thesis
    by (rule conjI[OF water_built conjI[OF a conjI[OF b conjI[OF c water_cached]]]])
qed




text \<open>
  Claim C6 (the working directory is deleted on every exit path) fails on the source
  when the infrared run raises after a successful Raman step: the exception leaves
  \<^verbatim>\<open>run_xtb_ir\<close> and the directory named by the hash is still there.
\<close>

theorem C6_directory_left_when_infrared_raises:
  "run_xtb_ir (world (RamanDone h2_raman [0, 0]) (InfraredRaised EngineError False)) cfg0 st0
      h2_atoms ''GFNFF'' (Some (on_a_line hydrogen))
    = (Inl EngineError,
       st0\<lparr>work_log := [RamanRun, InfraredRun], scratch_dirs := {''HHGFNFF''}\<rparr>)"
  using h2_analysis_infrared_raises[of h2_raman "[0, 0]" EngineError False "''GFNFF''"]
  by simp

text \<open>
  Claim C7. When \<^verbatim>\<open>ir_from_smiles\<close> (or \<^verbatim>\<open>ir_from_molfile\<close>) has returned a result,
  that result is stored in the final-result cache under the hash of the input string
  followed by the method, and a second call with the same pair returns the same result
  and leaves the whole state as it was: no cache changes and no entry is added to the
  record of embedding, optimization and engine runs.
\<close>

theorem C7_second_call_returns_cached_result:
  "(ir_from_smiles ext cfg st smiles method = (Inr r, st') \<longrightarrow>
      ir_from_smiles_cache st' (hash_object ext (smiles @ method)) = Some r
      \<and> ir_from_smiles ext cfg st' smiles method = (Inr r, st'))
   \<and> (ir_from_molfile ext cfg st2 molfile method2 = (Inr r2, st2') \<longrightarrow>
      ir_from_molfile_cache st2' (hash_object ext (molfile @ method2)) = Some r2
      \<and> ir_from_molfile ext cfg st2' molfile method2 = (Inr r2, st2'))"
proof (intro conjI impI)
  assume a: "ir_from_smiles ext cfg st smiles method = (Inr r, st')"
  from ir_from_smiles_stores[OF a]
  show c: "ir_from_smiles_cache st' (hash_object ext (smiles @ method)) = Some r" .
  then show "ir_from_smiles ext cfg st' smiles method = (Inr r, st')"
    by (simp add: ir_from_smiles_def)
next
  assume a: "ir_from_molfile ext cfg st2 molfile method2 = (Inr r2, st2')"
  from ir_from_molfile_stores[OF a]
  show c: "ir_from_molfile_cache st2' (hash_object ext (molfile @ method2)) = Some r2" .
  then show "ir_from_molfile ext cfg st2' molfile method2 = (Inr r2, st2')"
    by (simp add: ir_from_molfile_def)
qed

theorem C7_hydrogen_witness:
  "ir_from_smiles toy cfg0 st0 ''[H][H]'' ''GFNFF'' = (Inr (h2_result (Some h2_raman)), st_h2)
   \<and> ir_from_molfile toy cfg0 st0 ''h2.mol'' ''GFNFF''
       = (Inr (h2_result (Some h2_raman)), st_h2_molfile)
   \<and> ir_from_smiles toy cfg0 st_h2 ''[H][H]'' ''GFNFF'' = (Inr (h2_result (Some h2_raman)), st_h2)
   \<and> ir_from_molfile toy cfg0 st_h2_molfile ''h2.mol'' ''GFNFF''
       = (Inr (h2_result (Some h2_raman)), st_h2_molfile)
   \<and> work_log st_h2 = [Embedded, Optimized, RamanRun, InfraredRun]"
proof -
  note t = C7_second_call_returns_cached_result[of toy cfg0 st0 "''[H][H]''" "''GFNFF''"
      "h2_result (Some h2_raman)" st_h2 st0 "''h2.mol''" "''GFNFF''"
      "h2_result (Some h2_raman)" st_h2_molfile]
  note a = conjunct2[OF mp[OF conjunct1[OF t] h2_from_smiles]]
  note b = conjunct2[OF mp[OF conjunct2[OF t] h2_from_molfile]]
  have w: "work_log st_h2 = [Embedded, Optimized, RamanRun, InfraredRun]"
    by (simp add: st_h2_def)
  show ?thesis
    by (rule conjI[OF h2_from_smiles conjI[OF h2_from_molfile conjI[OF a conjI[OF b w]]]])
qed

text \<open>
  Claim C8 (unparseable input raises InvalidInputError) fails on the source: for text
  the parser rejects, both builders call a method on \<^verbatim>\<open>None\<close> and raise
  AttributeError.
\<close>

theorem C8_unparseable_input_raises_AttributeError:
  "MolFromSmiles toy ''not a molecule'' = None
   \<and> MolFromMolBlock toy ''not a molecule'' = None
   \<and> smiles2ase toy st0 ''not a molecule'' (Some 10) = (Inl AttributeError, st0)
   \<and> molfile2ase toy st0 ''not a molecule'' (Some 10) = (Inl AttributeError, st0)"
  by (simp add: smiles2ase_def molfile2ase_def toy_def world_fields st0_def check_max_atoms_def)

text \<open>
  Claim C9 (every selected bond index is below the number of bonds) fails on the source
  for a molecule without bonds: the row of bond-length changes is empty, the selection
  returns index 0, and \<^verbatim>\<open>compile_modes_info\<close> raises IndexError when it looks the bond up.
\<close>

theorem C9_empty_bond_row_selects_index_0:
  "select_most_contributing_bonds [] default_threshold = Inr [0]
   \<and> compile_modes_info cfg0 h2_infrared True h2_alignments (Some [[], [], [], [], [], []]) []
        (Some h2_raman) = Inl IndexError"
proof -
  have a: "select_most_contributing_bonds [] default_threshold = Inr [0]"
    by (simp add: select_most_contributing_bonds_def)
  have "mode_body cfg0 h2_infrared True h2_alignments 0 (Some [[], [], [], [], [], []]) []
          (raman_column 6 (Some h2_raman)) 0 = Inl IndexError"
    apply (simp add: mode_body_def Let_def h2_argsort)
    by (simp add: h2_infrared_def ebind_def classify_mode_def clean_frequency_def
      py_index_def select_most_contributing_bonds_def)
  then have b: "compile_modes_info cfg0 h2_infrared True h2_alignments
                  (Some [[], [], [], [], [], []]) [] (Some h2_raman) = Inl IndexError"
    unfolding compile_modes_info_def Let_def h2_num_modes
    by (simp add: h2_third ebind_def raman_column_def upt_rec)
  show ?thesis by (rule conjI[OF a b])
qed




end
